theory Spec2Isabelle
  imports Main "HOL-Library.Word"
begin

section \<open>The response cache middleware of cache.go\<close>

text \<open>
  A shallow embedding of \<^verbatim>\<open>src/cache.go\<close>: the configuration, the constructor
  \<^verbatim>\<open>New\<close>, the request handler \<^verbatim>\<open>ServeHTTP\<close>, the policy \<^verbatim>\<open>cacheable\<close>, the key
  function \<^verbatim>\<open>cacheKey\<close> and the capturing \<^verbatim>\<open>responseWriter\<close>.

  Everything the file calls but does not define is a parameter of the model, collected in
  the record \<open>deps\<close>: the Go standard library (\<^verbatim>\<open>encoding/json\<close>, \<^verbatim>\<open>regexp\<close>, \<^verbatim>\<open>net/url\<close>,
  \<^verbatim>\<open>net/textproto\<close>, \<^verbatim>\<open>fmt\<close>, the clock), the library \<^verbatim>\<open>pquerna/cachecontrol\<close>, and the
  file cache (\<^verbatim>\<open>newFileCache\<close>, \<^verbatim>\<open>Get\<close>, \<^verbatim>\<open>Set\<close>), whose source is in another file.
  The calls to \<^verbatim>\<open>Set\<close> and to \<^verbatim>\<open>log.Printf\<close> are outputs of the model.
\<close>

subsection \<open>Numbers, durations and instants\<close>

text \<open>
  Go's \<^verbatim>\<open>int\<close> is taken at 64 bits (the amd64 and arm64 targets); \<^verbatim>\<open>time.Duration\<close> is an
  \<^verbatim>\<open>int64\<close> count of nanoseconds. Both wrap around on multiplication and are compared as
  signed numbers (\<open><s\<close>, \<open>\<le>s\<close>). An instant (\<^verbatim>\<open>time.Time\<close>) is the number of nanoseconds
  since a fixed epoch.
\<close>

type_synonym go_int = "64 word"
type_synonym duration = "64 word"
type_synonym instant = int
type_synonym bytes = string

definition Second :: duration where
  "Second = 1000000000"

definition minDuration :: duration where
  "minDuration = word_of_int (- (2 ^ 63))"

definition maxDuration :: duration where
  "maxDuration = word_of_int (2 ^ 63 - 1)"

text \<open>\<^verbatim>\<open>t.Sub(u)\<close>: the difference, saturated at the least and the greatest duration.\<close>

definition time_Sub :: "instant \<Rightarrow> instant \<Rightarrow> duration" where
  "time_Sub t u =
     (if t - u < - (2 ^ 63) then minDuration
      else if 2 ^ 63 - 1 < t - u then maxDuration
      else word_of_int (t - u))"

text \<open>\<^verbatim>\<open>time.Until(t)\<close> is \<^verbatim>\<open>t.Sub(time.Now())\<close>; \<^verbatim>\<open>t.Add(d)\<close> moves an instant.\<close>

definition time_Until :: "instant \<Rightarrow> instant \<Rightarrow> duration" where
  "time_Until now t = time_Sub t now"

definition time_Add :: "instant \<Rightarrow> duration \<Rightarrow> instant" where
  "time_Add t d = t + sint d"

subsection \<open>Configuration\<close>

record Uri =
  Pattern :: string
  TTL :: go_int

record Config =
  cfg_Path :: string
  MaxExpiry :: go_int
  Cleanup :: go_int
  AddStatusHeader :: bool
  AllowedHTTPMethods :: "string list"
  SkipCacheControlHeader :: bool
  DefaultTTL :: go_int
  URIs :: "Uri list"

text \<open>\<^verbatim>\<open>CreateConfig\<close>: five minutes are 300 seconds.\<close>

definition CreateConfig :: Config where
  "CreateConfig =
     \<lparr>cfg_Path = [], MaxExpiry = 300, Cleanup = 300, AddStatusHeader = True,
      AllowedHTTPMethods = [''GET'', ''HEAD''], SkipCacheControlHeader = False,
      DefaultTTL = 0, URIs = []\<rparr>"

definition cacheHeader :: string where
  "cacheHeader = ''Cache-Status''"

definition cacheHitStatus :: string where
  "cacheHitStatus = ''hit''"

definition cacheMissStatus :: string where
  "cacheMissStatus = ''miss''"

definition cacheErrorStatus :: string where
  "cacheErrorStatus = ''error''"

subsection \<open>Requests, headers and response writers\<close>

text \<open>
  A header map (\<^verbatim>\<open>http.Header\<close>, a \<^verbatim>\<open>map[string][]string\<close>) is a list of keys with their
  values, in the order a \<^verbatim>\<open>range\<close> loop visits them. Of a URL the file reads the field
  \<^verbatim>\<open>Path\<close> and the method \<^verbatim>\<open>String()\<close>; the latter is a parameter (\<open>URL_String\<close> below).
\<close>

type_synonym headers = "(string \<times> string list) list"

record url =
  Path :: string
  ForceQuery :: bool
  RawQuery :: string

record request =
  Method :: string
  Host :: string
  URL :: url
  req_Header :: headers

text \<open>
  The \<^verbatim>\<open>http.ResponseWriter\<close> the host passes in is an interface: the model keeps its
  header map and the calls of \<^verbatim>\<open>WriteHeader\<close> and \<^verbatim>\<open>Write\<close> it has received, in order.
\<close>

datatype w_call = WriteHeader int | Write bytes

record writer =
  Header :: headers
  w_calls :: "w_call list"

definition w_WriteHeader :: "writer \<Rightarrow> int \<Rightarrow> writer" where
  "w_WriteHeader w s = w\<lparr>w_calls := w_calls w @ [WriteHeader s]\<rparr>"

definition w_Write :: "writer \<Rightarrow> bytes \<Rightarrow> writer" where
  "w_Write w p = w\<lparr>w_calls := w_calls w @ [Write p]\<rparr>"

text \<open>
  The type \<^verbatim>\<open>responseWriter\<close> and its methods. \<^verbatim>\<open>Header()\<close> returns the map of the
  wrapped writer; \<^verbatim>\<open>Write\<close> appends to \<^verbatim>\<open>body\<close> and forwards; \<^verbatim>\<open>WriteHeader\<close> sets
  \<^verbatim>\<open>status\<close> and forwards.
\<close>

record responseWriter =
  ResponseWriter :: writer
  status :: int
  body :: bytes

definition rw_Header :: "responseWriter \<Rightarrow> headers" where
  "rw_Header rw = Header (ResponseWriter rw)"

definition rw_Write :: "responseWriter \<Rightarrow> bytes \<Rightarrow> responseWriter" where
  "rw_Write rw p = rw\<lparr>body := body rw @ p, ResponseWriter := w_Write (ResponseWriter rw) p\<rparr>"

definition rw_WriteHeader :: "responseWriter \<Rightarrow> int \<Rightarrow> responseWriter" where
  "rw_WriteHeader rw s = rw\<lparr>status := s, ResponseWriter := w_WriteHeader (ResponseWriter rw) s\<rparr>"

text \<open>
  What an upstream handler does with the writer it is given: it changes the header map it
  gets from \<^verbatim>\<open>Header()\<close>, calls \<^verbatim>\<open>WriteHeader\<close> and calls \<^verbatim>\<open>Write\<close>. A handler is the list
  of these steps; \<open>run_handler\<close> performs them on a \<^verbatim>\<open>responseWriter\<close>.
\<close>

datatype rw_step = SetHeaders "headers \<Rightarrow> headers" | CallWriteHeader int | CallWrite bytes

fun rw_do :: "responseWriter \<Rightarrow> rw_step \<Rightarrow> responseWriter" where
  "rw_do rw (SetHeaders f) =
     rw\<lparr>ResponseWriter := (ResponseWriter rw)\<lparr>Header := f (rw_Header rw)\<rparr>\<rparr>"
| "rw_do rw (CallWriteHeader s) = rw_WriteHeader rw s"
| "rw_do rw (CallWrite p) = rw_Write rw p"

definition run_handler :: "rw_step list \<Rightarrow> responseWriter \<Rightarrow> responseWriter" where
  "run_handler steps rw = foldl rw_do rw steps"

subsection \<open>Cache entries and the collaborators\<close>

record cacheData =
  ExpiresAt :: instant
  Status :: int
  Headers :: headers
  Body :: bytes

datatype error = errors_New string

text \<open>
  The file cache as the middleware sees it during one request: what \<^verbatim>\<open>Get\<close> returns for a
  key (\<open>None\<close> when its error is not nil) and whether \<^verbatim>\<open>Set\<close> returns an error.
\<close>

record fileCache =
  Get :: "string \<Rightarrow> bytes option"
  Set_err :: "string \<Rightarrow> bytes \<Rightarrow> duration \<Rightarrow> bool"

text \<open>
  The collaborators. A compiled regular expression is the predicate its \<^verbatim>\<open>MatchString\<close>
  computes. \<open>json_Marshal\<close> returns the bytes and whether the error is not nil;
  \<open>CachableResponseWriter\<close> returns the reasons, the instant \<^verbatim>\<open>expireBy\<close> and whether the error
  is not nil. \<open>Sprintf_max_age\<close> is \<^verbatim>\<open>fmt.Sprintf("max-age=%d", int(d.Seconds()))\<close>. The clock
  is read at three places: when a hit is replayed, in the policy, and when an entry is
  built.
\<close>

record deps =
  URL_String :: "url \<Rightarrow> string"
  CanonicalMIMEHeaderKey :: "string \<Rightarrow> string"
  json_Marshal :: "cacheData \<Rightarrow> bytes \<times> bool"
  json_Unmarshal :: "bytes \<Rightarrow> cacheData option"
  regexp_Compile :: "string \<Rightarrow> (string \<Rightarrow> bool) option"
  CachableResponseWriter :: "request \<Rightarrow> int \<Rightarrow> headers \<Rightarrow> nat list \<times> instant \<times> bool"
  Sprintf_max_age :: "duration \<Rightarrow> string"
  newFileCache :: "string \<Rightarrow> duration \<Rightarrow> error + fileCache"
  now_hit :: instant
  now_policy :: instant
  now_entry :: instant

text \<open>\<^verbatim>\<open>Header.Set\<close> and \<^verbatim>\<open>Header.Add\<close>, on the canonical form of the key.\<close>

fun assign :: "string \<Rightarrow> string list \<Rightarrow> headers \<Rightarrow> headers" where
  "assign k vs [] = [(k, vs)]"
| "assign k vs ((k', vs') # h) = (if k' = k then (k, vs) # h else (k', vs') # assign k vs h)"

definition Header_Set :: "deps \<Rightarrow> headers \<Rightarrow> string \<Rightarrow> string \<Rightarrow> headers" where
  "Header_Set d h k v = assign (CanonicalMIMEHeaderKey d k) [v] h"

definition Header_Add :: "deps \<Rightarrow> headers \<Rightarrow> string \<Rightarrow> string \<Rightarrow> headers" where
  "Header_Add d h k v =
     (let ck = CanonicalMIMEHeaderKey d k in
      assign ck ((case map_of h ck of None \<Rightarrow> [] | Some vs \<Rightarrow> vs) @ [v]) h)"

subsection \<open>The middleware\<close>

text \<open>
  The struct \<^verbatim>\<open>cache\<close>, as one call of \<^verbatim>\<open>cacheable\<close> sees it. The map \<^verbatim>\<open>uriMap\<close> is keyed
  by pointers to compiled expressions, so no two rules share a key; it is the list of its
  entries in the order in which the \<^verbatim>\<open>range\<close> loop of that call visits them. Go fixes no
  order and draws a new one for every loop: two calls on the same middleware are two
  values of this record whose lists hold the same entries, in any two orders. A statement
  about one call holds for every order, since it holds for every list.
\<close>

type_synonym rules = "((string \<Rightarrow> bool) \<times> go_int) list"

record cache =
  name :: string
  fcache :: fileCache
  cfg :: Config
  uriMap :: rules
  next_h :: "request \<Rightarrow> rw_step list"

text \<open>
  The loop of \<^verbatim>\<open>New\<close> over \<^verbatim>\<open>cfg.URIs\<close>: a pattern that does not compile is skipped. The
  entries are listed as they are declared, which is one of the orders a later \<^verbatim>\<open>range\<close>
  loop may visit them in; it gives the declared order no precedence.
\<close>

fun compile_uris :: "deps \<Rightarrow> Uri list \<Rightarrow> rules" where
  "compile_uris d [] = []"
| "compile_uris d (uri # uris) =
     (case regexp_Compile d (Pattern uri) of
        None \<Rightarrow> compile_uris d uris
      | Some re \<Rightarrow> (re, TTL uri) # compile_uris d uris)"

definition New :: "deps \<Rightarrow> (request \<Rightarrow> rw_step list) \<Rightarrow> Config \<Rightarrow> string \<Rightarrow> error + cache" where
  "New d nxt c nm =
     (if MaxExpiry c \<le>s 1 then Inl (errors_New ''maxExpiry must be greater or equal to 1'')
      else if Cleanup c \<le>s 1 then Inl (errors_New ''cleanup must be greater or equal to 1'')
      else case newFileCache d (cfg_Path c) (Cleanup c * Second) of
             Inl err \<Rightarrow> Inl err
           | Inr fc \<Rightarrow>
               Inr \<lparr>name = nm, fcache = fc, cfg = c, uriMap = compile_uris d (URIs c),
                    next_h = nxt\<rparr>)"

definition cacheKey :: "request \<Rightarrow> string" where
  "cacheKey r = Method r @ Host r @ Path (URL r)"

text \<open>
  The \<^verbatim>\<open>range\<close> loop of \<^verbatim>\<open>cacheable\<close> over \<^verbatim>\<open>uriMap\<close>: the first expression that matches
  returns from the function, with the rule's TTL cut at the maximum.
\<close>

fun uriMap_loop :: "Config \<Rightarrow> rules \<Rightarrow> string \<Rightarrow> (duration \<times> bool) option" where
  "uriMap_loop c [] requestUrl = None"
| "uriMap_loop c ((re, ttl) # rest) requestUrl =
     (if re requestUrl
      then (let expiry = ttl * Second; maxExpiry = MaxExpiry c * Second
            in Some (if maxExpiry <s expiry then maxExpiry else expiry, True))
      else uriMap_loop c rest requestUrl)"

text \<open>
  \<^verbatim>\<open>cacheable\<close>. In the first branch the inner test of \<^verbatim>\<open>SkipCacheControlHeader\<close> is kept as
  the source has it (it cannot hold there).
\<close>

definition cacheable :: "deps \<Rightarrow> cache \<Rightarrow> request \<Rightarrow> writer \<Rightarrow> int \<Rightarrow> duration \<times> bool" where
  "cacheable d m r w st =
     (if \<not> SkipCacheControlHeader (cfg m) then
        (case CachableResponseWriter d r st (Header w) of
           (reasons, expireBy, err) \<Rightarrow>
             if err \<or> 0 < length reasons then (0, False)
             else
               (let expireBy' =
                      (if SkipCacheControlHeader (cfg m)
                       then time_Add (now_policy d) (DefaultTTL (cfg m) * Second)
                       else expireBy);
                    expiry = time_Until (now_policy d) expireBy';
                    maxExpiry = MaxExpiry (cfg m) * Second
                in (if maxExpiry <s expiry then maxExpiry else expiry, True)))
      else
        (case uriMap_loop (cfg m) (uriMap m) (URL_String d (URL r)) of
           Some res \<Rightarrow> res
         | None \<Rightarrow>
             if 0 <s DefaultTTL (cfg m) then
               (let expiry = DefaultTTL (cfg m) * Second;
                    maxExpiry = MaxExpiry (cfg m) * Second
                in (if maxExpiry <s expiry then maxExpiry else expiry, True))
             else (0, False)))"

text \<open>
  What \<^verbatim>\<open>ServeHTTP\<close> leaves behind: the writer of the client, the calls of \<^verbatim>\<open>Set\<close> it made
  (key, bytes, expiry) and the lines it logged.
\<close>

datatype log_line = Error_serializing | Error_setting

record outcome =
  out_w :: writer
  sets :: "(string \<times> bytes \<times> duration) list"
  logs :: "log_line list"

text \<open>The hit branch of \<^verbatim>\<open>ServeHTTP\<close>: the stored headers, status and body are replayed.\<close>

definition replay :: "deps \<Rightarrow> cache \<Rightarrow> writer \<Rightarrow> cacheData \<Rightarrow> outcome" where
  "replay d m w data =
     (let h1 = foldl (\<lambda>h (key, vals). foldl (\<lambda>h' val. Header_Add d h' key val) h vals)
                 (Header w) (Headers data);
          h2 = (if AddStatusHeader (cfg m)
                then Header_Set d
                       (Header_Set d h1 ''Cache-Control''
                          (Sprintf_max_age d (time_Sub (ExpiresAt data) (now_hit d))))
                       cacheHeader cacheHitStatus
                else h1)
      in \<lparr>out_w = w_Write (w_WriteHeader (w\<lparr>Header := h2\<rparr>) (Status data)) (Body data),
          sets = [], logs = []\<rparr>)"

text \<open>
  The rest of \<^verbatim>\<open>ServeHTTP\<close>, with the value \<open>cs\<close> of the status header. \<open>upstream\<close> is the
  capturing writer after the next handler has run.
\<close>

definition upstream :: "deps \<Rightarrow> cache \<Rightarrow> writer \<Rightarrow> request \<Rightarrow> string \<Rightarrow> responseWriter" where
  "upstream d m w r cs =
     (let w1 = (if AddStatusHeader (cfg m)
                then w\<lparr>Header := Header_Set d (Header w) cacheHeader cs\<rparr> else w)
      in run_handler (next_h m r) \<lparr>ResponseWriter = w1, status = 0, body = []\<rparr>)"

definition pass_through :: "deps \<Rightarrow> cache \<Rightarrow> writer \<Rightarrow> request \<Rightarrow> string \<Rightarrow> string \<Rightarrow> outcome" where
  "pass_through d m w r key cs =
     (let rw = upstream d m w r cs;
          w' = ResponseWriter rw
      in case cacheable d m r w' (status rw) of
           (expiry, ok) \<Rightarrow>
             if \<not> ok then \<lparr>out_w = w', sets = [], logs = []\<rparr>
             else
               (let data = \<lparr>ExpiresAt = time_Add (now_entry d) expiry, Status = status rw,
                            Headers = Header w', Body = body rw\<rparr>
                in case json_Marshal d data of
                     (b, err) \<Rightarrow>
                       \<lparr>out_w = w', sets = [(key, b, expiry)],
                        logs = (if err then [Error_serializing] else []) @
                               (if Set_err (fcache m) key b expiry then [Error_setting] else [])\<rparr>))"

text \<open>
  The lookup at the head of \<^verbatim>\<open>ServeHTTP\<close>: the entry to replay, or else the value of the
  variable \<^verbatim>\<open>cs\<close> with which the request is passed on (\<^verbatim>\<open>miss\<close> when \<^verbatim>\<open>Get\<close> fails,
  \<^verbatim>\<open>error\<close> when the bytes do not decode).
\<close>

definition lookup :: "deps \<Rightarrow> cache \<Rightarrow> string \<Rightarrow> cacheData + string" where
  "lookup d m key =
     (case Get (fcache m) key of
        None \<Rightarrow> Inr cacheMissStatus
      | Some b \<Rightarrow>
          (case json_Unmarshal d b of
             None \<Rightarrow> Inr cacheErrorStatus
           | Some data \<Rightarrow> Inl data))"

definition ServeHTTP :: "deps \<Rightarrow> cache \<Rightarrow> writer \<Rightarrow> request \<Rightarrow> outcome" where
  "ServeHTTP d m w r =
     (let key = cacheKey r
      in case lookup d m key of
           Inl data \<Rightarrow> replay d m w data
         | Inr cs \<Rightarrow> pass_through d m w r key cs)"

subsection \<open>Notions of the specification\<close>

text \<open>
  The candidate expiry, in the words of the specification: in standard mode the freshness
  lifetime from now, in override mode the TTL of the first rule that matches, or the
  default TTL when none does; as a duration.
\<close>

definition candidate_expiry :: "deps \<Rightarrow> cache \<Rightarrow> request \<Rightarrow> writer \<Rightarrow> int \<Rightarrow> duration" where
  "candidate_expiry d m r w st =
     (if SkipCacheControlHeader (cfg m) then
        (case find (\<lambda>rule. fst rule (URL_String d (URL r))) (uriMap m) of
           Some rule \<Rightarrow> snd rule * Second
         | None \<Rightarrow> DefaultTTL (cfg m) * Second)
      else
        (case CachableResponseWriter d r st (Header w) of
           (reasons, expireBy, err) \<Rightarrow> time_Until (now_policy d) expireBy))"

text \<open>The calls a handler's steps send to the writer of the client.\<close>

fun step_calls :: "rw_step \<Rightarrow> w_call list" where
  "step_calls (SetHeaders f) = []"
| "step_calls (CallWriteHeader s) = [WriteHeader s]"
| "step_calls (CallWrite p) = [Write p]"

text \<open>What a handler's steps make of the header map they are given.\<close>

fun step_headers :: "rw_step \<Rightarrow> headers \<Rightarrow> headers" where
  "step_headers (SetHeaders f) h = f h"
| "step_headers (CallWriteHeader s) h = h"
| "step_headers (CallWrite p) h = h"

definition handler_headers :: "rw_step list \<Rightarrow> headers \<Rightarrow> headers" where
  "handler_headers steps h = foldl (\<lambda>h' s. step_headers s h') h steps"

text \<open>The TTL of a rule as a duration, cut at the configured maximum.\<close>

definition cut_at_max :: "Config \<Rightarrow> go_int \<Rightarrow> duration" where
  "cut_at_max c ttl =
     (if MaxExpiry c * Second <s ttl * Second then MaxExpiry c * Second else ttl * Second)"

text \<open>The rules that match a request: those whose expression matches its URL string.\<close>

definition matching_rules :: "deps \<Rightarrow> cache \<Rightarrow> request \<Rightarrow> rules" where
  "matching_rules d m r = filter (\<lambda>rule. fst rule (URL_String d (URL r))) (uriMap m)"

text \<open>The same middleware in front of a file cache that has no entry.\<close>

definition with_empty_store :: "cache \<Rightarrow> cache" where
  "with_empty_store m = m\<lparr>fcache := (fcache m)\<lparr>Get := (\<lambda>key. None)\<rparr>\<rparr>"

subsection \<open>Example inputs\<close>

text \<open>
  Inputs for the examples. \<open>origin_form_String\<close> is what \<^verbatim>\<open>URL.String()\<close> returns for the
  URL of a request in origin form (no scheme, no host, no fragment) whose path needs no
  escaping: the path, and a question mark with the raw query when there is one. The other
  collaborators of \<open>example_deps\<close> are stand-ins: a canonical form that leaves keys alone,
  an encoder that answers with the body, a decoder that fails, a compiler that knows the
  two patterns of the examples, a cache-control evaluation with no reason and a freshness
  of one hour, a clock at 0.
\<close>

definition origin_form_String :: "url \<Rightarrow> string" where
  "origin_form_String u =
     Path u @ (if ForceQuery u \<or> RawQuery u \<noteq> [] then CHR ''?'' # RawQuery u else [])"

definition example_fc :: fileCache where
  "example_fc = \<lparr>Get = (\<lambda>key. None), Set_err = (\<lambda>key b expiry. False)\<rparr>"

definition example_deps :: deps where
  "example_deps =
     \<lparr>URL_String = origin_form_String,
      CanonicalMIMEHeaderKey = (\<lambda>k. k),
      json_Marshal = (\<lambda>data. (Body data, False)),
      json_Unmarshal = (\<lambda>b. None),
      regexp_Compile =
        (\<lambda>p. if p = ''^/api$'' then Some (\<lambda>s. s = ''/api'')
             else if p = ''^/api'' then Some (\<lambda>s. take 4 s = ''/api'')
             else None),
      CachableResponseWriter = (\<lambda>r st h. ([], 3600000000000, False)),
      Sprintf_max_age = (\<lambda>dur. ''max-age=0''),
      newFileCache = (\<lambda>path cleanup. Inr example_fc),
      now_hit = 0, now_policy = 0, now_entry = 0\<rparr>"

definition example_handler :: "request \<Rightarrow> rw_step list" where
  "example_handler r = [CallWriteHeader 200, CallWrite ''ok'']"

definition example_cache :: "Config \<Rightarrow> rules \<Rightarrow> cache" where
  "example_cache c rs =
     \<lparr>name = ''cache'', fcache = example_fc, cfg = c, uriMap = rs, next_h = example_handler\<rparr>"

text \<open>
  Override mode with the given default TTL and rules; the other fields as \<^verbatim>\<open>CreateConfig\<close>
  sets them.
\<close>

definition override_cfg :: "go_int \<Rightarrow> Uri list \<Rightarrow> Config" where
  "override_cfg dflt uris =
     CreateConfig\<lparr>SkipCacheControlHeader := True, DefaultTTL := dflt, URIs := uris\<rparr>"

text \<open>
  The rule with the pattern \<^verbatim>\<open>^/api$\<close>, which matches the string /api and no other: as it
  is configured, and as \<^verbatim>\<open>New\<close> leaves it in \<^verbatim>\<open>uriMap\<close>.
\<close>

definition api_uri :: "go_int \<Rightarrow> Uri" where
  "api_uri ttl = \<lparr>Pattern = ''^/api$'', TTL = ttl\<rparr>"

definition api_rule :: "go_int \<Rightarrow> rules" where
  "api_rule ttl = [(\<lambda>s. s = ''/api'', ttl)]"

text \<open>
  The rule with the pattern \<^verbatim>\<open>^/api\<close>, which matches the strings that start with /api.
\<close>

definition prefix_uri :: "go_int \<Rightarrow> Uri" where
  "prefix_uri ttl = \<lparr>Pattern = ''^/api'', TTL = ttl\<rparr>"

definition prefix_rule :: "go_int \<Rightarrow> rules" where
  "prefix_rule ttl = [(\<lambda>s. take 4 s = ''/api'', ttl)]"

text \<open>A file cache whose entry is the one byte of an opening brace, which does not decode.\<close>

definition corrupt_fc :: fileCache where
  "corrupt_fc = \<lparr>Get = (\<lambda>key. Some ''{''), Set_err = (\<lambda>key b expiry. False)\<rparr>"

text \<open>A handler that sets a response header, then writes the status 200 and a body.\<close>

definition header_handler :: "request \<Rightarrow> rw_step list" where
  "header_handler r =
     [SetHeaders (\<lambda>h. h @ [(''Content-Type'', [''text/plain''])]),
      CallWriteHeader 200, CallWrite ''ok'']"

text \<open>A request to example.com for the path /api, with the given method and raw query.\<close>

definition example_request :: "string \<Rightarrow> string \<Rightarrow> request" where
  "example_request method query =
     \<lparr>Method = method, Host = ''example.com'',
      URL = \<lparr>Path = ''/api'', ForceQuery = False, RawQuery = query\<rparr>, req_Header = []\<rparr>"

definition example_w :: writer where
  "example_w = \<lparr>Header = [], w_calls = []\<rparr>"

section \<open>Properties\<close>

subsection \<open>Auxiliary facts\<close>

lemma sint_signed_min: "sint (if a <s b then a else b) = min (sint b) (sint a)"
  by (simp add: word_sless_alt min_def)

text \<open>
  A number of seconds becomes a duration without wrap-around as long as it stays within
  about 292 years.
\<close>

lemma sint_seconds:
  fixes ttl :: go_int
  assumes "- 9223372036 \<le> sint ttl" and "sint ttl \<le> 9223372036"
  shows "sint (ttl * Second) = sint ttl * 1000000000"
proof -
  have s: "sint Second = 1000000000"
    by (simp add: Second_def)
  have "sint (ttl * Second) = signed_take_bit 63 (sint ttl * sint Second)"
    by (simp add: sint_word_ariths)
  also have "\<dots> = sint ttl * 1000000000"
    unfolding s using assms
    by (intro signed_take_bit_int_eq_self) simp_all
  finally show ?thesis .
qed

lemma uriMap_loop_None:
  "(uriMap_loop c rs u = None) = (find (\<lambda>rule. fst rule u) rs = None)"
  by (induction rs) (auto simp: Let_def)

lemma uriMap_loop_Some:
  "find (\<lambda>rule. fst rule u) rs = Some rule \<Longrightarrow>
   uriMap_loop c rs u =
     Some (if MaxExpiry c * Second <s snd rule * Second then MaxExpiry c * Second
           else snd rule * Second, True)"
  by (induction rs) (auto simp: Let_def split: if_splits)

lemma run_handler_calls:
  "w_calls (ResponseWriter (run_handler steps rw)) =
     w_calls (ResponseWriter rw) @ concat (map step_calls steps)"
  unfolding run_handler_def
proof (induction steps arbitrary: rw)
  case Nil
  then show ?case by simp
next
  case (Cons s steps)
  show ?case
    by (cases s)
      (simp_all add: Cons rw_WriteHeader_def rw_Write_def w_WriteHeader_def w_Write_def)
qed

lemma New_succeeds_iff:
  "(\<exists>m. New d nxt c nm = Inr m) \<longleftrightarrow>
     1 <s MaxExpiry c \<and> 1 <s Cleanup c \<and>
     (\<exists>fc. newFileCache d (cfg_Path c) (Cleanup c * Second) = Inr fc)"
  by (auto simp: New_def word_sle_eq word_sless_alt split: sum.splits)

lemma out_w_pass_through:
  "out_w (pass_through d m w r key cs) = ResponseWriter (upstream d m w r cs)"
  by (simp add: pass_through_def Let_def split: prod.splits)

lemma sets_pass_through:
  "cacheable d m r (ResponseWriter (upstream d m w r cs)) (status (upstream d m w r cs)) = (e, ok) \<Longrightarrow>
   map (\<lambda>(k, b, e'). (k, e')) (sets (pass_through d m w r key cs)) = (if ok then [(key, e)] else [])"
  by (simp add: pass_through_def Let_def split: prod.splits)

lemma cacheable_override_no_match:
  assumes "SkipCacheControlHeader (cfg m)"
      and "find (\<lambda>rule. fst rule (URL_String d (URL r))) (uriMap m) = None"
  shows "cacheable d m r w st =
           (if 0 <s DefaultTTL (cfg m)
            then (if MaxExpiry (cfg m) * Second <s DefaultTTL (cfg m) * Second
                  then MaxExpiry (cfg m) * Second else DefaultTTL (cfg m) * Second, True)
            else (0, False))"
proof -
  from assms(2) have "uriMap_loop (cfg m) (uriMap m) (URL_String d (URL r)) = None"
    by (simp add: uriMap_loop_None)
  with assms(1) show ?thesis
    by (simp add: cacheable_def Let_def)
qed

lemma cacheable_override_match:
  assumes "SkipCacheControlHeader (cfg m)"
      and "find (\<lambda>rule. fst rule (URL_String d (URL r))) (uriMap m) = Some rule"
  shows "cacheable d m r w st =
           (if MaxExpiry (cfg m) * Second <s snd rule * Second
            then MaxExpiry (cfg m) * Second else snd rule * Second, True)"
  using assms by (simp add: cacheable_def uriMap_loop_Some)

lemma cacheable_standard:
  assumes "\<not> SkipCacheControlHeader (cfg m)"
      and "CachableResponseWriter d r st (Header w) = (reasons, expireBy, err)"
  shows "cacheable d m r w st =
           (if err \<or> reasons \<noteq> [] then (0, False)
            else (if MaxExpiry (cfg m) * Second <s time_Until (now_policy d) expireBy
                  then MaxExpiry (cfg m) * Second else time_Until (now_policy d) expireBy, True))"
  using assms by (simp add: cacheable_def Let_def)

lemma sets_replay: "sets (replay d m w data) = []"
  by (simp add: replay_def Let_def)

lemma find_None_Ball:
  "(find P xs = None) = (\<forall>x \<in> set xs. \<not> P x)"
  by (auto simp: find_None_iff)

lemma status_run_handler:
  "list_all (\<lambda>s. case s of CallWriteHeader c \<Rightarrow> False | _ \<Rightarrow> True) steps \<Longrightarrow>
   status (run_handler steps rw) = status rw"
  unfolding run_handler_def
proof (induction steps arbitrary: rw)
  case Nil
  then show ?case by simp
next
  case (Cons s steps)
  then show ?case
    by (cases s) (simp_all add: rw_Write_def)
qed

lemma ServeHTTP_pass_through:
  "lookup d m (cacheKey r) = Inr cs \<Longrightarrow>
   ServeHTTP d m w r = pass_through d m w r (cacheKey r) cs"
  by (simp add: ServeHTTP_def)

lemma calls_upstream:
  "w_calls (ResponseWriter (upstream d m w r cs)) = w_calls w @ concat (map step_calls (next_h m r))"
  by (simp add: upstream_def run_handler_calls Let_def)

lemma upstream_no_status_header:
  "\<not> AddStatusHeader (cfg m) \<Longrightarrow> upstream d m w r cs = upstream d m w r cs'"
  by (simp add: upstream_def)

lemma uriMap_loop_None_matching:
  "(uriMap_loop c (uriMap m) (URL_String d (URL r)) = None) = (matching_rules d m r = [])"
  by (auto simp: uriMap_loop_None matching_rules_def find_None_iff filter_empty_conv)

lemma uriMap_loop_Some_matching:
  "uriMap_loop c rs u = Some res \<Longrightarrow>
   \<exists>rule \<in> set rs. fst rule u \<and> res = (cut_at_max c (snd rule), True)"
proof (induction rs)
  case Nil
  then show ?case by simp
next
  case (Cons x rs)
  obtain re ttl where x: "x = (re, ttl)"
    by (cases x)
  show ?case
  proof (cases "re u")
    case True
    with Cons.prems x have "res = (cut_at_max c ttl, True)"
      by (simp add: Let_def cut_at_max_def)
    with True x show ?thesis
      by auto
  next
    case False
    with Cons x show ?thesis
      by auto
  qed
qed

lemma override_answer_any_order:
  assumes "SkipCacheControlHeader (cfg m1)" and "cfg m2 = cfg m1"
      and "URL_String d (URL r1) = URL_String d (URL r2)"
      and "set (uriMap m1) = set (uriMap m2)"
  shows "snd (cacheable d m1 r1 w1 st1) = snd (cacheable d m2 r2 w2 st2)"
proof -
  have a: "snd (cacheable d m r w st) =
             (matching_rules d m r \<noteq> [] \<or> 0 <s DefaultTTL (cfg m))"
    if "SkipCacheControlHeader (cfg m)" for m r w st
  proof (cases "uriMap_loop (cfg m) (uriMap m) (URL_String d (URL r))")
    case None
    with that show ?thesis
      using uriMap_loop_None_matching [of "cfg m" m d r]
      by (simp add: cacheable_def Let_def)
  next
    case (Some res)
    from uriMap_loop_Some_matching [OF Some] have "snd res"
      by auto
    with that Some show ?thesis
      using uriMap_loop_None_matching [of "cfg m" m d r]
      by (simp add: cacheable_def)
  qed
  have "set (matching_rules d m1 r1) = set (matching_rules d m2 r2)"
    using assms by (simp add: matching_rules_def)
  then have "(matching_rules d m1 r1 = []) = (matching_rules d m2 r2 = [])"
    by (metis set_empty)
  with assms a [of m1 r1 w1 st1] a [of m2 r2 w2 st2] show ?thesis
    by simp
qed

lemma run_handler_headers:
  "Header (ResponseWriter (run_handler steps rw)) =
     handler_headers steps (Header (ResponseWriter rw))"
  unfolding run_handler_def handler_headers_def
proof (induction steps arbitrary: rw)
  case Nil
  then show ?case by simp
next
  case (Cons s steps)
  show ?case
    by (cases s)
      (simp_all add: Cons rw_Header_def rw_WriteHeader_def rw_Write_def w_WriteHeader_def
         w_Write_def)
qed

lemma headers_upstream:
  "Header (ResponseWriter (upstream d m w r cs)) =
     handler_headers (next_h m r)
       (if AddStatusHeader (cfg m) then Header_Set d (Header w) cacheHeader cs else Header w)"
  by (simp add: upstream_def run_handler_headers Let_def)

lemmas ex_defs = example_deps_def example_cache_def example_fc_def example_handler_def
  example_request_def example_w_def override_cfg_def api_rule_def api_uri_def CreateConfig_def
  prefix_uri_def prefix_rule_def corrupt_fc_def header_handler_def
  origin_form_String_def

lemmas code_defs = ServeHTTP_def lookup_def pass_through_def upstream_def run_handler_def
  cacheable_def cacheKey_def rw_WriteHeader_def rw_Write_def w_WriteHeader_def w_Write_def
  rw_Header_def Header_Set_def cacheHeader_def cacheMissStatus_def cacheErrorStatus_def
  time_Until_def time_Sub_def time_Add_def Second_def Let_def word_sless_alt word_sle_eq

text \<open>The caches of the examples are what \<^verbatim>\<open>New\<close> builds from their configurations.\<close>

lemma New_example:
  "New example_deps example_handler (override_cfg dflt [api_uri ttl]) ''cache''
     = Inr (example_cache (override_cfg dflt [api_uri ttl]) (api_rule ttl))
   \<and> New example_deps example_handler (override_cfg dflt []) ''cache''
     = Inr (example_cache (override_cfg dflt []) [])
   \<and> New example_deps example_handler (CreateConfig\<lparr>MaxExpiry := 60\<rparr>) ''cache''
     = Inr (example_cache (CreateConfig\<lparr>MaxExpiry := 60\<rparr>) [])"
  by (simp add: New_def ex_defs word_sle_eq)

lemma New_two_rules:
  "New example_deps example_handler (override_cfg dflt [api_uri t1, prefix_uri t2]) ''cache''
     = Inr (example_cache (override_cfg dflt [api_uri t1, prefix_uri t2])
              (api_rule t1 @ prefix_rule t2))"
  by (simp add: New_def ex_defs word_sle_eq)

subsection \<open>The claims\<close>

text \<open>
  C3. The claim is that construction fails exactly when the maximum expiry or the cleanup
  interval is below 1, as the two error messages of \<^verbatim>\<open>New\<close> say. The tests of \<^verbatim>\<open>New\<close> are
  \<^verbatim>\<open>cfg.MaxExpiry <= 1\<close> and \<^verbatim>\<open>cfg.Cleanup <= 1\<close>: with a maximum expiry of 1, or a cleanup
  interval of 1, construction fails with the message that the value must be greater or
  equal to 1.
\<close>

theorem New_rejects_one:
  "New d nxt (c\<lparr>MaxExpiry := 1\<rparr>) nm
     = Inl (errors_New ''maxExpiry must be greater or equal to 1'')
   \<and> New d nxt (c\<lparr>MaxExpiry := 300, Cleanup := 1\<rparr>) nm
     = Inl (errors_New ''cleanup must be greater or equal to 1'')"
  by (simp add: New_def word_sle_eq)

text \<open>
  C9. The key is the concatenation of method, host and path with nothing between them, so
  it is not injective: a request with method GET and host Texample.com and a request with
  method GETT and host example.com have the key GETTexample.com/a, and so the lookup of
  the one finds what was stored for the other.
\<close>

theorem cacheKey_not_injective:
  "cacheKey \<lparr>Method = ''GET'', Host = ''Texample.com'',
             URL = \<lparr>Path = ''/a'', ForceQuery = False, RawQuery = []\<rparr>, req_Header = []\<rparr>
   = cacheKey \<lparr>Method = ''GETT'', Host = ''example.com'',
               URL = \<lparr>Path = ''/a'', ForceQuery = False, RawQuery = []\<rparr>, req_Header = []\<rparr>
   \<and> (''GET'', ''Texample.com'', ''/a'') \<noteq> (''GETT'', ''example.com'', ''/a'')
   \<and> lookup d m
         (cacheKey \<lparr>Method = ''GET'', Host = ''Texample.com'',
                    URL = \<lparr>Path = ''/a'', ForceQuery = False, RawQuery = []\<rparr>,
                    req_Header = []\<rparr>)
       = lookup d m
           (cacheKey \<lparr>Method = ''GETT'', Host = ''example.com'',
                      URL = \<lparr>Path = ''/a'', ForceQuery = False, RawQuery = []\<rparr>,
                      req_Header = []\<rparr>)"
  by (simp add: cacheKey_def)

text \<open>
  C1. The claim has two parts. The first holds: whenever the policy answers "cacheable",
  the expiry it returns is the smaller of the candidate expiry and the configured maximum
  (as signed 64-bit durations in nanoseconds), and a request that is passed on hands this
  expiry to \<^verbatim>\<open>Set\<close>. The second part, that a candidate of at most 0 after clamping makes
  the policy answer "not cacheable", fails: \<^verbatim>\<open>cacheable\<close> never looks at the sign of the
  expiry it returns. It answers "not cacheable" exactly when, in standard mode, the
  cache-control evaluation returns an error or a reason, and in override mode, when no
  rule matches and the default TTL is not greater than zero.
\<close>

theorem cacheable_expiry_clamped:
  "(cacheable d m r w st = (e, True) \<longrightarrow>
      sint e = min (sint (candidate_expiry d m r w st)) (sint (MaxExpiry (cfg m) * Second)))
   \<and> (cacheable d m r w st = (e, True) \<and> lookup d m (cacheKey r) = Inr cs
        \<and> w = ResponseWriter (upstream d m w0 r cs) \<and> st = status (upstream d m w0 r cs) \<longrightarrow>
      map (\<lambda>(k, b, e'). (k, e')) (sets (ServeHTTP d m w0 r)) = [(cacheKey r, e)])
   \<and> (snd (cacheable d m r w st) \<longleftrightarrow>
        (if SkipCacheControlHeader (cfg m)
         then list_ex (\<lambda>rule. fst rule (URL_String d (URL r))) (uriMap m)
              \<or> 0 <s DefaultTTL (cfg m)
         else (case CachableResponseWriter d r st (Header w) of
                 (reasons, expireBy, err) \<Rightarrow> \<not> err \<and> reasons = [])))"
proof (intro conjI impI)
  assume c: "cacheable d m r w st = (e, True)"
  show "sint e = min (sint (candidate_expiry d m r w st)) (sint (MaxExpiry (cfg m) * Second))"
  proof (cases "SkipCacheControlHeader (cfg m)")
    case True
    show ?thesis
    proof (cases "find (\<lambda>rule. fst rule (URL_String d (URL r))) (uriMap m)")
      case None
      with True c show ?thesis
        by (auto simp: cacheable_override_no_match candidate_expiry_def word_sless_alt min_def
            split: if_splits)
    next
      case (Some rule)
      with True c show ?thesis
        by (auto simp: cacheable_override_match candidate_expiry_def word_sless_alt min_def
            split: if_splits)
    qed
  next
    case False
    obtain reasons expireBy err where cc:
      "CachableResponseWriter d r st (Header w) = (reasons, expireBy, err)"
      by (cases "CachableResponseWriter d r st (Header w)") auto
    with False c show ?thesis
      by (auto simp: cacheable_standard candidate_expiry_def word_sless_alt min_def
          split: if_splits)
  qed
next
  assume a: "cacheable d m r w st = (e, True) \<and> lookup d m (cacheKey r) = Inr cs
        \<and> w = ResponseWriter (upstream d m w0 r cs) \<and> st = status (upstream d m w0 r cs)"
  then have "cacheable d m r (ResponseWriter (upstream d m w0 r cs)) (status (upstream d m w0 r cs))
               = (e, True)"
    by auto
  from sets_pass_through [OF this] a
  show "map (\<lambda>(k, b, e'). (k, e')) (sets (ServeHTTP d m w0 r)) = [(cacheKey r, e)]"
    by (simp add: ServeHTTP_def)
next
  show "snd (cacheable d m r w st) \<longleftrightarrow>
        (if SkipCacheControlHeader (cfg m)
         then list_ex (\<lambda>rule. fst rule (URL_String d (URL r))) (uriMap m)
              \<or> 0 <s DefaultTTL (cfg m)
         else (case CachableResponseWriter d r st (Header w) of
                 (reasons, expireBy, err) \<Rightarrow> \<not> err \<and> reasons = []))"
  proof (cases "SkipCacheControlHeader (cfg m)")
    case True
    show ?thesis
    proof (cases "find (\<lambda>rule. fst rule (URL_String d (URL r))) (uriMap m)")
      case None
      with True show ?thesis
        by (auto simp: cacheable_override_no_match find_None_iff list_ex_iff)
    next
      case (Some rule)
      with True show ?thesis
        by (auto simp: cacheable_override_match find_Some_iff list_ex_iff)
    qed
  next
    case False
    obtain reasons expireBy err where cc:
      "CachableResponseWriter d r st (Header w) = (reasons, expireBy, err)"
      by (cases "CachableResponseWriter d r st (Header w)") auto
    with False show ?thesis
      by (auto simp: cacheable_standard)
  qed
qed

text \<open>
  An instance: standard mode, a maximum expiry of 60 seconds, a freshness lifetime of one
  hour. The expiry is 60 seconds, and \<^verbatim>\<open>Set\<close> is called with it.
\<close>

theorem cacheable_expiry_clamped_witness:
  "cacheable example_deps (example_cache (CreateConfig\<lparr>MaxExpiry := 60\<rparr>) [])
     (example_request ''GET'' [])
     (ResponseWriter (upstream example_deps (example_cache (CreateConfig\<lparr>MaxExpiry := 60\<rparr>) [])
        example_w (example_request ''GET'' []) cacheMissStatus)) 200
     = (60 * Second, True)
   \<and> sint (60 * Second) =
       min (sint (candidate_expiry example_deps (example_cache (CreateConfig\<lparr>MaxExpiry := 60\<rparr>) [])
              (example_request ''GET'' [])
              (ResponseWriter (upstream example_deps
                 (example_cache (CreateConfig\<lparr>MaxExpiry := 60\<rparr>) [])
                 example_w (example_request ''GET'' []) cacheMissStatus)) 200))
           (sint (MaxExpiry (cfg (example_cache (CreateConfig\<lparr>MaxExpiry := 60\<rparr>) [])) * Second))
   \<and> map (\<lambda>(k, b, e). (k, e))
        (sets (ServeHTTP example_deps (example_cache (CreateConfig\<lparr>MaxExpiry := 60\<rparr>) [])
           example_w (example_request ''GET'' [])))
      = [(cacheKey (example_request ''GET'' []), 60 * Second)]"
proof -
  let ?m = "example_cache (CreateConfig\<lparr>MaxExpiry := 60\<rparr>) []"
  let ?r = "example_request ''GET'' []"
  let ?rw = "upstream example_deps ?m example_w ?r cacheMissStatus"
  have st: "status ?rw = 200"
    by (simp add: ex_defs code_defs)
  have c: "cacheable example_deps ?m ?r (ResponseWriter ?rw) 200 = (60 * Second, True)"
    by (simp add: ex_defs code_defs word_sless_alt)
  have l: "lookup example_deps ?m (cacheKey ?r) = Inr cacheMissStatus"
    by (simp add: ex_defs lookup_def)
  from cacheable_expiry_clamped [of example_deps ?m ?r "ResponseWriter ?rw" 200 "60 * Second"
      cacheMissStatus example_w] c l st
  show ?thesis by simp
qed

text \<open>
  Against the second part of C1: in override mode a rule with the pattern \<^verbatim>\<open>^/api$\<close> and
  a TTL of 0 matches the request GET /api. The candidate expiry is 0, the policy answers
  "cacheable" with the expiry 0, and \<^verbatim>\<open>ServeHTTP\<close> calls \<^verbatim>\<open>Set\<close> with the expiry 0.
\<close>

theorem zero_ttl_rule_is_stored:
  "cacheable example_deps (example_cache (override_cfg 0 [api_uri 0]) (api_rule 0))
     (example_request ''GET'' []) example_w 200 = (0, True)
   \<and> sint (candidate_expiry example_deps (example_cache (override_cfg 0 [api_uri 0]) (api_rule 0))
        (example_request ''GET'' []) example_w 200) \<le> 0
   \<and> map (\<lambda>(k, b, e). (k, e))
        (sets (ServeHTTP example_deps (example_cache (override_cfg 0 [api_uri 0]) (api_rule 0)) example_w
           (example_request ''GET'' [])))
      = [(''GETexample.com/api'', 0)]"
  by (simp add: ex_defs code_defs candidate_expiry_def)

text \<open>
  C5. In override mode, for a request whose URL string no rule of \<^verbatim>\<open>uriMap\<close> matches: when
  the default TTL is greater than zero the policy answers "cacheable", the candidate expiry
  is the default TTL and the expiry returned is the candidate cut at the maximum; when the
  default TTL is at most zero the policy answers "not cacheable" whatever the status and
  the headers of the upstream response are, and \<^verbatim>\<open>ServeHTTP\<close> makes no call of \<^verbatim>\<open>Set\<close>.
\<close>

theorem override_default_ttl:
  assumes "SkipCacheControlHeader (cfg m)"
      and "\<forall>rule \<in> set (uriMap m). \<not> fst rule (URL_String d (URL r))"
  shows "(0 <s DefaultTTL (cfg m) \<longrightarrow>
            cacheable d m r w st =
              (if MaxExpiry (cfg m) * Second <s DefaultTTL (cfg m) * Second
               then MaxExpiry (cfg m) * Second else DefaultTTL (cfg m) * Second, True)
            \<and> candidate_expiry d m r w st = DefaultTTL (cfg m) * Second)
       \<and> (DefaultTTL (cfg m) \<le>s 0 \<longrightarrow>
            cacheable d m r w st = (0, False) \<and> sets (ServeHTTP d m w0 r) = [])"
proof -
  from assms(2) have nf: "find (\<lambda>rule. fst rule (URL_String d (URL r))) (uriMap m) = None"
    by (simp add: find_None_Ball)
  have c: "cacheable d m r w' st' =
           (if 0 <s DefaultTTL (cfg m)
            then (if MaxExpiry (cfg m) * Second <s DefaultTTL (cfg m) * Second
                  then MaxExpiry (cfg m) * Second else DefaultTTL (cfg m) * Second, True)
            else (0, False))" for w' st'
    by (rule cacheable_override_no_match [OF assms(1) nf])
  have cand: "candidate_expiry d m r w st = DefaultTTL (cfg m) * Second"
    using assms(1) nf by (simp add: candidate_expiry_def)
  have neg: "\<not> 0 <s DefaultTTL (cfg m)" if "DefaultTTL (cfg m) \<le>s 0"
    using that by (simp add: word_sle_eq word_sless_alt)
  have stored: "sets (ServeHTTP d m w0 r) = []" if "DefaultTTL (cfg m) \<le>s 0"
  proof (cases "lookup d m (cacheKey r)")
    case (Inl data)
    then show ?thesis by (simp add: ServeHTTP_def sets_replay)
  next
    case (Inr cs)
    then show ?thesis
      using neg [OF that] by (simp add: ServeHTTP_def pass_through_def c Let_def)
  qed
  show ?thesis
    using c [of w st] cand neg stored by simp
qed

text \<open>
  Two instances, for the request GET /api?x=1 and the rule \<^verbatim>\<open>^/api$\<close>, which does not match
  it: with a default TTL of 30 seconds the expiry is 30 seconds; with a default TTL of 0
  nothing is stored.
\<close>

theorem override_default_ttl_witness:
  "cacheable example_deps (example_cache (override_cfg 30 [api_uri 60]) (api_rule 60))
     (example_request ''GET'' ''x=1'') example_w 200 = (30 * Second, True)
   \<and> cacheable example_deps (example_cache (override_cfg 0 [api_uri 60]) (api_rule 60))
       (example_request ''GET'' ''x=1'') example_w 200 = (0, False)
   \<and> sets (ServeHTTP example_deps (example_cache (override_cfg 0 [api_uri 60]) (api_rule 60)) example_w
        (example_request ''GET'' ''x=1'')) = []"
proof -
  let ?r = "example_request ''GET'' ''x=1''"
  have skip: "SkipCacheControlHeader (cfg (example_cache (override_cfg dflt [api_uri 60]) (api_rule 60)))"
    for dflt
    by (simp add: ex_defs)
  have nomatch: "\<forall>rule \<in> set (uriMap (example_cache (override_cfg dflt [api_uri 60]) (api_rule 60))).
                   \<not> fst rule (URL_String example_deps (URL ?r))" for dflt
    by (simp add: ex_defs)
  have pos: "0 <s DefaultTTL (cfg (example_cache (override_cfg 30 [api_uri 60]) (api_rule 60)))"
    by (simp add: ex_defs word_sless_alt)
  have nonpos: "DefaultTTL (cfg (example_cache (override_cfg 0 [api_uri 60]) (api_rule 60))) \<le>s 0"
    by (simp add: ex_defs)
  have clamp: "\<not> MaxExpiry (cfg (example_cache (override_cfg 30 [api_uri 60]) (api_rule 60))) * Second
                 <s DefaultTTL (cfg (example_cache (override_cfg 30 [api_uri 60]) (api_rule 60))) * Second"
    by (simp add: ex_defs Second_def word_sless_alt)
  have d30: "DefaultTTL (cfg (example_cache (override_cfg 30 [api_uri 60]) (api_rule 60))) = 30"
    by (simp add: ex_defs)
  from override_default_ttl [OF skip nomatch, of 30 example_w 200 example_w]
       override_default_ttl [OF skip nomatch, of 0 example_w 200 example_w]
       pos nonpos clamp d30
  show ?thesis by simp
qed

text \<open>
  C7. The claim is that rule matching in override mode looks at the path of the request
  only, so that requests with the same path and different query strings match the same
  rules. \<^verbatim>\<open>cacheable\<close> matches the expressions against \<^verbatim>\<open>r.URL.String()\<close>, the string of
  the whole URL, which holds the query string. What holds is: whether a rule matches
  depends on the request through its URL string only, so two requests with the same URL
  string match the same set of rules, in whatever order each call visits the map.
  \<^verbatim>\<open>cacheable\<close> goes on to the default TTL exactly when no rule matches the URL string,
  and otherwise returns the TTL, cut at the maximum, of one of the rules that match it.
\<close>

theorem rule_matching_depends_on_URL_String:
  assumes "SkipCacheControlHeader (cfg m1)"
      and "URL_String d (URL r1) = URL_String d (URL r2)"
      and "set (uriMap m1) = set (uriMap m2)"
  shows "set (matching_rules d m1 r1) = set (matching_rules d m2 r2)
       \<and> (matching_rules d m1 r1 = [] \<longrightarrow>
            cacheable d m1 r1 w st =
              (if 0 <s DefaultTTL (cfg m1)
               then (cut_at_max (cfg m1) (DefaultTTL (cfg m1)), True) else (0, False)))
       \<and> (matching_rules d m1 r1 \<noteq> [] \<longrightarrow>
            (\<exists>rule \<in> set (matching_rules d m2 r2).
               cacheable d m1 r1 w st = (cut_at_max (cfg m1) (snd rule), True)))"
proof -
  let ?u = "URL_String d (URL r1)"
  have same: "set (matching_rules d m1 r1) = set (matching_rules d m2 r2)"
    using assms(2,3) by (simp add: matching_rules_def)
  have none: "cacheable d m1 r1 w st =
              (if 0 <s DefaultTTL (cfg m1)
               then (cut_at_max (cfg m1) (DefaultTTL (cfg m1)), True) else (0, False))"
    if "matching_rules d m1 r1 = []"
  proof -
    from that have "uriMap_loop (cfg m1) (uriMap m1) ?u = None"
      by (simp add: uriMap_loop_None_matching)
    with assms(1) show ?thesis
      by (simp add: cacheable_def cut_at_max_def Let_def)
  qed
  have some: "\<exists>rule \<in> set (matching_rules d m2 r2).
               cacheable d m1 r1 w st = (cut_at_max (cfg m1) (snd rule), True)"
    if "matching_rules d m1 r1 \<noteq> []"
  proof -
    from that obtain res where res: "uriMap_loop (cfg m1) (uriMap m1) ?u = Some res"
      using uriMap_loop_None_matching [of "cfg m1" m1 d r1] by (cases "uriMap_loop (cfg m1) (uriMap m1) ?u") auto
    from uriMap_loop_Some_matching [OF res] obtain rule where
      rule: "rule \<in> set (uriMap m1)" "fst rule ?u" "res = (cut_at_max (cfg m1) (snd rule), True)"
      by blast
    then have "rule \<in> set (matching_rules d m1 r1)"
      by (simp add: matching_rules_def)
    with same have "rule \<in> set (matching_rules d m2 r2)"
      by simp
    moreover from assms(1) res rule(3)
    have "cacheable d m1 r1 w st = (cut_at_max (cfg m1) (snd rule), True)"
      by (simp add: cacheable_def)
    ultimately show ?thesis
      by blast
  qed
  from same none some show ?thesis
    by blast
qed

text \<open>
  An instance: the rules \<^verbatim>\<open>^/api$\<close> (10 seconds) and \<^verbatim>\<open>^/api\<close> (20 seconds) both match
  the requests GET /api and HEAD /api. Which of the two TTLs is returned depends on the
  order of the visit: 10 seconds in the one order, 20 seconds in the other.
\<close>

theorem rule_matching_depends_on_URL_String_witness:
  "URL_String example_deps (URL (example_request ''GET'' []))
     = URL_String example_deps (URL (example_request ''HEAD'' []))
   \<and> set (matching_rules example_deps
        (example_cache (override_cfg 0 [api_uri 10, prefix_uri 20]) (api_rule 10 @ prefix_rule 20))
        (example_request ''GET'' []))
     = set (matching_rules example_deps
        (example_cache (override_cfg 0 [api_uri 10, prefix_uri 20]) (prefix_rule 20 @ api_rule 10))
        (example_request ''HEAD'' []))
   \<and> matching_rules example_deps
        (example_cache (override_cfg 0 [api_uri 10, prefix_uri 20]) (api_rule 10 @ prefix_rule 20))
        (example_request ''GET'' [])
     = api_rule 10 @ prefix_rule 20
   \<and> cacheable example_deps
        (example_cache (override_cfg 0 [api_uri 10, prefix_uri 20]) (api_rule 10 @ prefix_rule 20))
        (example_request ''GET'' []) example_w 200 = (10 * Second, True)
   \<and> cacheable example_deps
        (example_cache (override_cfg 0 [api_uri 10, prefix_uri 20]) (prefix_rule 20 @ api_rule 10))
        (example_request ''HEAD'' []) example_w 200 = (20 * Second, True)"
proof -
  let ?c = "override_cfg 0 [api_uri 10, prefix_uri 20]"
  let ?m1 = "example_cache ?c (api_rule 10 @ prefix_rule 20)"
  let ?m2 = "example_cache ?c (prefix_rule 20 @ api_rule 10)"
  have u: "URL_String example_deps (URL (example_request ''GET'' []))
     = URL_String example_deps (URL (example_request ''HEAD'' []))"
    by (simp add: ex_defs)
  have p: "set (uriMap ?m1) = set (uriMap ?m2)"
    by (simp add: example_cache_def insert_commute api_rule_def prefix_rule_def)
  have m: "matching_rules example_deps ?m1 (example_request ''GET'' [])
             = api_rule 10 @ prefix_rule 20"
    by (simp add: matching_rules_def ex_defs)
  have c1: "cacheable example_deps ?m1 (example_request ''GET'' []) example_w 200
              = (10 * Second, True)"
    by (simp add: ex_defs code_defs)
  have c2: "cacheable example_deps ?m2 (example_request ''HEAD'' []) example_w 200
              = (20 * Second, True)"
    by (simp add: ex_defs code_defs)
  have k: "SkipCacheControlHeader (cfg ?m1)"
    by (simp add: ex_defs)
  from rule_matching_depends_on_URL_String [OF k u p] have
    "set (matching_rules example_deps ?m1 (example_request ''GET'' []))
     = set (matching_rules example_deps ?m2 (example_request ''HEAD'' []))"
    by blast
  with u m c1 c2 show ?thesis
    by blast
qed

text \<open>
  Against C7 as stated: the requests GET /api and GET /api?x=1 have the same path. The rule
  \<^verbatim>\<open>^/api$\<close> with a TTL of 30 seconds matches the first one, whose URL string is /api, and
  not the second one, whose URL string is /api?x=1; with a default TTL of 0 the first
  response is cacheable for 30 seconds and the second one is not cacheable.
\<close>

theorem query_string_changes_match:
  "Path (URL (example_request ''GET'' [])) = Path (URL (example_request ''GET'' ''x=1''))
   \<and> cacheable example_deps (example_cache (override_cfg 0 [api_uri 30]) (api_rule 30))
        (example_request ''GET'' []) example_w 200 = (30 * Second, True)
   \<and> cacheable example_deps (example_cache (override_cfg 0 [api_uri 30]) (api_rule 30))
        (example_request ''GET'' ''x=1'') example_w 200 = (0, False)"
  by (simp add: ex_defs code_defs)

text \<open>
  C2. The claim is that the response to a request whose method is not in the configured
  list \<^verbatim>\<open>AllowedHTTPMethods\<close> is never stored. The configuration declares the list, and
  \<^verbatim>\<open>CreateConfig\<close> sets it to GET and HEAD, but neither \<^verbatim>\<open>ServeHTTP\<close> nor \<^verbatim>\<open>cacheable\<close>
  reads it. For a POST request to example.com/api, in override mode with a default TTL of
  30 seconds and the list as \<^verbatim>\<open>CreateConfig\<close> sets it, \<^verbatim>\<open>ServeHTTP\<close> calls \<^verbatim>\<open>Set\<close> with
  the key POSTexample.com/api and an expiry of 30 seconds, whatever the collaborators and
  the writer are.
\<close>

theorem disallowed_method_is_stored:
  "''POST'' \<notin> set (AllowedHTTPMethods (cfg (example_cache (override_cfg 30 []) [])))
   \<and> map (\<lambda>(k, b, e). (k, e))
        (sets (ServeHTTP d (example_cache (override_cfg 30 []) []) w (example_request ''POST'' [])))
      = [(''POSTexample.com/api'', 30 * Second)]"
  by (simp add: ex_defs code_defs split: prod.splits)

text \<open>
  C6. The claim is that the capture records the status 200 when the upstream handler
  writes body bytes and never sets a status. The method \<^verbatim>\<open>Write\<close> of \<^verbatim>\<open>responseWriter\<close>
  appends to \<^verbatim>\<open>body\<close> and forwards; only \<^verbatim>\<open>WriteHeader\<close> assigns \<^verbatim>\<open>status\<close>. After a handler
  that only calls \<^verbatim>\<open>Write\<close>, the captured status is 0, the value the field starts with,
  while the bytes have gone to the client's writer; in override mode the entry that is
  encoded and stored has the status 0.
\<close>

theorem write_without_status_captures_zero:
  "status (upstream d (m\<lparr>next_h := (\<lambda>r. [CallWrite p])\<rparr>) w r cs) = 0
   \<and> body (upstream d (m\<lparr>next_h := (\<lambda>r. [CallWrite p])\<rparr>) w r cs) = p
   \<and> w_calls (ResponseWriter (upstream d (m\<lparr>next_h := (\<lambda>r. [CallWrite p])\<rparr>) w r cs))
       = w_calls w @ [Write p]
   \<and> sets (ServeHTTP d ((example_cache (override_cfg 30 []) [])\<lparr>next_h := (\<lambda>r. [CallWrite ''hi''])\<rparr>)
        example_w (example_request ''GET'' []))
       = [(''GETexample.com/api'',
           fst (json_Marshal d
             \<lparr>ExpiresAt = time_Add (now_entry d) (30 * Second), Status = 0,
              Headers = [(CanonicalMIMEHeaderKey d ''Cache-Status'', [''miss''])],
              Body = ''hi''\<rparr>),
           30 * Second)]"
  by (simp add: ex_defs code_defs split: prod.splits)

text \<open>
  C8. The claim is that a request whose stored bytes do not decode is handled as a miss
  and that no error reaches the client. \<^verbatim>\<open>ServeHTTP\<close> does pass such a request on: it runs
  the rest of the function; the client's writer receives the \<^verbatim>\<open>WriteHeader\<close> and \<^verbatim>\<open>Write\<close>
  calls of the upstream handler and no other call, and its header map is what the handler
  makes of the map it is handed. That map is not the one of a miss: with the status header
  switched on, as \<^verbatim>\<open>CreateConfig\<close> sets it, \<^verbatim>\<open>ServeHTTP\<close> sets the header \<^verbatim>\<open>Cache-Status\<close> to
  \<^verbatim>\<open>error\<close> where a miss sets it to \<^verbatim>\<open>miss\<close>. This is the only difference for the client;
  with the status header switched off its writer ends as it does on a miss.
\<close>

theorem decode_failure_passes_through:
  assumes "Get (fcache m) (cacheKey r) = Some b" and "json_Unmarshal d b = None"
  shows "ServeHTTP d m w r = pass_through d m w r (cacheKey r) cacheErrorStatus
       \<and> w_calls (out_w (ServeHTTP d m w r)) = w_calls w @ concat (map step_calls (next_h m r))
       \<and> Header (out_w (ServeHTTP d m w r)) =
           handler_headers (next_h m r)
             (if AddStatusHeader (cfg m)
              then Header_Set d (Header w) cacheHeader cacheErrorStatus else Header w)
       \<and> w_calls (out_w (ServeHTTP d (with_empty_store m) w r))
           = w_calls w @ concat (map step_calls (next_h m r))
       \<and> Header (out_w (ServeHTTP d (with_empty_store m) w r)) =
           handler_headers (next_h m r)
             (if AddStatusHeader (cfg m)
              then Header_Set d (Header w) cacheHeader cacheMissStatus else Header w)
       \<and> (\<not> AddStatusHeader (cfg m) \<longrightarrow>
            out_w (ServeHTTP d m w r) = out_w (ServeHTTP d (with_empty_store m) w r))"
proof -
  from assms have l: "lookup d m (cacheKey r) = Inr cacheErrorStatus"
    by (simp add: lookup_def)
  have l': "lookup d (with_empty_store m) (cacheKey r) = Inr cacheMissStatus"
    by (simp add: lookup_def with_empty_store_def)
  have u: "upstream d (with_empty_store m) w r cs = upstream d m w r cs" for cs
    by (simp add: upstream_def with_empty_store_def)
  have 1: "ServeHTTP d m w r = pass_through d m w r (cacheKey r) cacheErrorStatus"
    by (rule ServeHTTP_pass_through [OF l])
  have 2: "out_w (ServeHTTP d m w r) = ResponseWriter (upstream d m w r cacheErrorStatus)"
    by (simp add: 1 out_w_pass_through)
  have 3: "out_w (ServeHTTP d (with_empty_store m) w r)
             = ResponseWriter (upstream d m w r cacheMissStatus)"
    by (simp add: ServeHTTP_pass_through [OF l'] out_w_pass_through u)
  have 4: "out_w (ServeHTTP d m w r) = out_w (ServeHTTP d (with_empty_store m) w r)"
    if "\<not> AddStatusHeader (cfg m)"
    using upstream_no_status_header [OF that, of d w r cacheErrorStatus cacheMissStatus]
    by (simp add: 2 3)
  have 5: "w_calls (out_w (ServeHTTP d m w r)) = w_calls w @ concat (map step_calls (next_h m r))"
    by (simp only: 2 calls_upstream)
  have 6: "w_calls (out_w (ServeHTTP d (with_empty_store m) w r))
           = w_calls w @ concat (map step_calls (next_h m r))"
    by (simp only: 3 calls_upstream)
  have 7: "Header (out_w (ServeHTTP d m w r)) =
           handler_headers (next_h m r)
             (if AddStatusHeader (cfg m)
              then Header_Set d (Header w) cacheHeader cacheErrorStatus else Header w)"
    by (simp only: 2 headers_upstream)
  have 8: "Header (out_w (ServeHTTP d (with_empty_store m) w r)) =
           handler_headers (next_h m r)
             (if AddStatusHeader (cfg m)
              then Header_Set d (Header w) cacheHeader cacheMissStatus else Header w)"
    by (simp only: 3 headers_upstream)
  from 1 5 7 6 8 4 show ?thesis
    by blast
qed

text \<open>
  Two instances, with a handler that sets a response header: with the status header on,
  the client gets the handler's header, status and body, and \<^verbatim>\<open>Cache-Status\<close> is \<^verbatim>\<open>error\<close>
  (\<^verbatim>\<open>miss\<close> when the file cache has no entry); with the status header off, the client's
  writer ends as it does on a miss.
\<close>

theorem decode_failure_passes_through_witness:
  "out_w (ServeHTTP example_deps
     ((example_cache CreateConfig [])\<lparr>fcache := corrupt_fc, next_h := header_handler\<rparr>)
     example_w (example_request ''GET'' []))
   = \<lparr>Header = [(''Cache-Status'', [''error'']), (''Content-Type'', [''text/plain''])],
      w_calls = [WriteHeader 200, Write ''ok'']\<rparr>
   \<and> out_w (ServeHTTP example_deps
       (with_empty_store
          ((example_cache CreateConfig [])\<lparr>fcache := corrupt_fc, next_h := header_handler\<rparr>))
       example_w (example_request ''GET'' []))
     = \<lparr>Header = [(''Cache-Status'', [''miss'']), (''Content-Type'', [''text/plain''])],
        w_calls = [WriteHeader 200, Write ''ok'']\<rparr>
   \<and> out_w (ServeHTTP example_deps
       ((example_cache (CreateConfig\<lparr>AddStatusHeader := False\<rparr>) [])
          \<lparr>fcache := corrupt_fc, next_h := header_handler\<rparr>)
       example_w (example_request ''GET'' []))
     = \<lparr>Header = [(''Content-Type'', [''text/plain''])],
        w_calls = [WriteHeader 200, Write ''ok'']\<rparr>
   \<and> out_w (ServeHTTP example_deps
       (with_empty_store
          ((example_cache (CreateConfig\<lparr>AddStatusHeader := False\<rparr>) [])
             \<lparr>fcache := corrupt_fc, next_h := header_handler\<rparr>))
       example_w (example_request ''GET'' []))
     = \<lparr>Header = [(''Content-Type'', [''text/plain''])],
        w_calls = [WriteHeader 200, Write ''ok'']\<rparr>"
proof -
  let ?m = "(example_cache CreateConfig [])\<lparr>fcache := corrupt_fc, next_h := header_handler\<rparr>"
  let ?n = "(example_cache (CreateConfig\<lparr>AddStatusHeader := False\<rparr>) [])
              \<lparr>fcache := corrupt_fc, next_h := header_handler\<rparr>"
  let ?r = "example_request ''GET'' []"
  have g: "Get (fcache ?m) (cacheKey ?r) = Some ''{''"
    by (simp add: corrupt_fc_def)
  have g': "Get (fcache ?n) (cacheKey ?r) = Some ''{''"
    by (simp add: corrupt_fc_def)
  have u: "json_Unmarshal example_deps ''{'' = None"
    by (simp add: example_deps_def)
  have on: "AddStatusHeader (cfg ?m)" and off: "\<not> AddStatusHeader (cfg ?n)"
    by (simp_all add: ex_defs)
  have raw:
    "w_calls (out_w (ServeHTTP example_deps ?m example_w ?r))
       = w_calls example_w @ concat (map step_calls (next_h ?m ?r))"
    "Header (out_w (ServeHTTP example_deps ?m example_w ?r))
       = handler_headers (next_h ?m ?r)
           (if AddStatusHeader (cfg ?m)
            then Header_Set example_deps (Header example_w) cacheHeader cacheErrorStatus
            else Header example_w)"
    "w_calls (out_w (ServeHTTP example_deps (with_empty_store ?m) example_w ?r))
       = w_calls example_w @ concat (map step_calls (next_h ?m ?r))"
    "Header (out_w (ServeHTTP example_deps (with_empty_store ?m) example_w ?r))
       = handler_headers (next_h ?m ?r)
           (if AddStatusHeader (cfg ?m)
            then Header_Set example_deps (Header example_w) cacheHeader cacheMissStatus
            else Header example_w)"
    using decode_failure_passes_through [OF g u, of example_w] by blast+
  have raw':
    "w_calls (out_w (ServeHTTP example_deps ?n example_w ?r))
       = w_calls example_w @ concat (map step_calls (next_h ?n ?r))"
    "Header (out_w (ServeHTTP example_deps ?n example_w ?r))
       = handler_headers (next_h ?n ?r)
           (if AddStatusHeader (cfg ?n)
            then Header_Set example_deps (Header example_w) cacheHeader cacheErrorStatus
            else Header example_w)"
    "out_w (ServeHTTP example_deps ?n example_w ?r)
       = out_w (ServeHTTP example_deps (with_empty_store ?n) example_w ?r)"
    using decode_failure_passes_through [OF g' u, of example_w] off by blast+
  have a: "w_calls (out_w (ServeHTTP example_deps ?m example_w ?r)) = [WriteHeader 200, Write ''ok'']"
          "Header (out_w (ServeHTTP example_deps ?m example_w ?r))
             = [(''Cache-Status'', [''error'']), (''Content-Type'', [''text/plain''])]"
          "w_calls (out_w (ServeHTTP example_deps (with_empty_store ?m) example_w ?r))
             = [WriteHeader 200, Write ''ok'']"
          "Header (out_w (ServeHTTP example_deps (with_empty_store ?m) example_w ?r))
             = [(''Cache-Status'', [''miss'']), (''Content-Type'', [''text/plain''])]"
    using raw
    by (simp_all add: ex_defs handler_headers_def Header_Set_def cacheHeader_def
        cacheErrorStatus_def cacheMissStatus_def)
  have b: "w_calls (out_w (ServeHTTP example_deps ?n example_w ?r)) = [WriteHeader 200, Write ''ok'']"
          "Header (out_w (ServeHTTP example_deps ?n example_w ?r))
             = [(''Content-Type'', [''text/plain''])]"
    using raw'(1,2)
    by (simp_all add: ex_defs handler_headers_def)
  note c = raw'(3)
  have eqw: "x = \<lparr>Header = Header x, w_calls = w_calls x\<rparr>" for x :: writer
    by simp
  show ?thesis
    using a b c
      eqw [of "out_w (ServeHTTP example_deps ?m example_w ?r)"]
      eqw [of "out_w (ServeHTTP example_deps (with_empty_store ?m) example_w ?r)"]
      eqw [of "out_w (ServeHTTP example_deps ?n example_w ?r)"]
    by simp
qed

text \<open>
  Against C8 as stated: with the configuration of \<^verbatim>\<open>CreateConfig\<close> and a stored entry that
  does not decode, the client receives the header \<^verbatim>\<open>Cache-Status\<close> with the value \<^verbatim>\<open>error\<close>;
  in front of a file cache with no entry the same request receives the value \<^verbatim>\<open>miss\<close>.
\<close>

theorem decode_failure_sets_error_header:
  "lookup example_deps ((example_cache CreateConfig [])\<lparr>fcache := corrupt_fc\<rparr>)
     (cacheKey (example_request ''GET'' [])) = Inr cacheErrorStatus
   \<and> out_w (ServeHTTP example_deps ((example_cache CreateConfig [])\<lparr>fcache := corrupt_fc\<rparr>)
        example_w (example_request ''GET'' []))
     = \<lparr>Header = [(''Cache-Status'', [''error''])],
        w_calls = [WriteHeader 200, Write ''ok'']\<rparr>
   \<and> out_w (ServeHTTP example_deps
        (with_empty_store ((example_cache CreateConfig [])\<lparr>fcache := corrupt_fc\<rparr>))
        example_w (example_request ''GET'' []))
     = \<lparr>Header = [(''Cache-Status'', [''miss''])],
        w_calls = [WriteHeader 200, Write ''ok'']\<rparr>"
  by (simp add: ex_defs code_defs with_empty_store_def)

text \<open>
  C10. When a request is passed on, the policy answers "cacheable" and \<^verbatim>\<open>json.Marshal\<close>
  returns an error, \<^verbatim>\<open>ServeHTTP\<close> logs the error and goes on: it calls \<^verbatim>\<open>Set\<close> once, with the
  key of the request, the bytes \<^verbatim>\<open>json.Marshal\<close> returned and the expiry of the policy.
\<close>

theorem encode_failure_still_sets:
  assumes "lookup d m (cacheKey r) = Inr cs"
      and "rw = upstream d m w r cs"
      and "cacheable d m r (ResponseWriter rw) (status rw) = (expiry, True)"
      and "json_Marshal d
             \<lparr>ExpiresAt = time_Add (now_entry d) expiry, Status = status rw,
              Headers = Header (ResponseWriter rw), Body = body rw\<rparr> = (b, True)"
  shows "sets (ServeHTTP d m w r) = [(cacheKey r, b, expiry)]
       \<and> logs (ServeHTTP d m w r) =
           Error_serializing #
           (if Set_err (fcache m) (cacheKey r) b expiry then [Error_setting] else [])"
  using assms by (simp add: ServeHTTP_def pass_through_def Let_def)

text \<open>An instance, with an encoder that returns no bytes and an error.\<close>

theorem encode_failure_still_sets_witness:
  "ServeHTTP (example_deps\<lparr>json_Marshal := (\<lambda>data. ([], True))\<rparr>)
     (example_cache (override_cfg 30 []) []) example_w (example_request ''GET'' [])
   = \<lparr>out_w = \<lparr>Header = [(''Cache-Status'', [''miss''])],
                w_calls = [WriteHeader 200, Write ''ok'']\<rparr>,
      sets = [(''GETexample.com/api'', [], 30 * Second)], logs = [Error_serializing]\<rparr>"
proof -
  let ?d = "example_deps\<lparr>json_Marshal := (\<lambda>data. ([], True))\<rparr>"
  let ?m = "example_cache (override_cfg 30 []) []"
  let ?r = "example_request ''GET'' []"
  let ?rw = "upstream ?d ?m example_w ?r cacheMissStatus"
  have l: "lookup ?d ?m (cacheKey ?r) = Inr cacheMissStatus"
    by (simp add: ex_defs lookup_def)
  have c: "cacheable ?d ?m ?r (ResponseWriter ?rw) (status ?rw) = (30 * Second, True)"
    by (simp add: ex_defs code_defs)
  have j: "json_Marshal ?d
             \<lparr>ExpiresAt = time_Add (now_entry ?d) (30 * Second), Status = status ?rw,
              Headers = Header (ResponseWriter ?rw), Body = body ?rw\<rparr> = ([], True)"
    by (simp add: example_deps_def)
  have w: "out_w (ServeHTTP ?d ?m example_w ?r)
            = \<lparr>Header = [(''Cache-Status'', [''miss''])],
                w_calls = [WriteHeader 200, Write ''ok'']\<rparr>"
    by (simp add: ex_defs code_defs)
  have k: "cacheKey ?r = ''GETexample.com/api''"
    by (simp add: ex_defs cacheKey_def)
  have s: "Set_err (fcache ?m) k b e = False" for k b e
    by (simp add: ex_defs)
  from encode_failure_still_sets [OF l refl c j] w k s
  show ?thesis
    by (cases "ServeHTTP ?d ?m example_w ?r") simp
qed

end
